theory Spec2Isabelle
  imports Complex_Main "HOL-Library.Multiset" "HOL-Library.Sublist"
begin

section \<open>The skyscraper dashboard (main.py)\<close>

text \<open>
  \<^verbatim>\<open>main.py\<close> is one linear script: it loads a CSV table, cleans two columns, filters
  the table by the sidebar's year range, height range and city selection, drops
  columns, and renders six tabs from the variable \<^verbatim>\<open>filtered_df\<close>.

  Modelling conventions.
  \<^item> A data frame is the list of its rows, in row order.
  \<^item> A float column that cannot hold a missing value is a \<open>rat\<close> column: every finite
    float is a rational, and comparisons and rounding to a whole number are exact on
    floats. A float column that can hold NaN is an \<open>option\<close> column, \<open>None\<close> being NaN.
    Sums, means and the midpoint of a median are taken in exact rational arithmetic;
    where the floats would round, the model is an idealisation.
  \<^item> A Python exception is a value \<open>Inl e\<close> of a sum type.
  \<^item> The only variable the tabs share is \<^verbatim>\<open>filtered_df\<close>; each tab is a function
    from that table to the table it leaves behind and what it displays.
\<close>

subsection \<open>Tables\<close>

text \<open>
  A row of \<^verbatim>\<open>skyscrapers.csv\<close> as \<^verbatim>\<open>pd.read_csv\<close> returns it (dotted column names).
  The city and the coordinates may be missing; the height and the completed year are
  present in every row, an unknown year being written 0.
\<close>

record csv_row =
  csv_id :: int
  csv_location_city :: "string option"
  csv_location_latitude :: "rat option"
  csv_location_longitude :: "rat option"
  csv_statistics_height :: rat
  csv_status_completed_year :: int

text \<open>
  A row after the projection of line 94 (\<open>view_row\<close>), and a row of \<^verbatim>\<open>df\<close> before it
  (\<open>row\<close>), which still has the \<^verbatim>\<open>id\<close> column, one of the columns in
  \<^verbatim>\<open>columns_to_exclude\<close>. The other columns of the file are read by no line of the
  script but the projection and the displays, and are left out.
\<close>

record view_row =
  location_city :: string
  location_latitude :: "rat option"
  location_longitude :: "rat option"
  statistics_height :: rat
  status_completed_year :: "int option"

record row = view_row +
  id_col :: int

datatype py_error = ValueError

subsection \<open>Loading and cleaning (lines 9 to 14)\<close>

text \<open>
  \<^verbatim>\<open>fillna('Unknown')\<close> on the city column, the renaming of the columns, and
  \<^verbatim>\<open>replace(0, np.nan)\<close> on the completed year.
\<close>

definition clean_row :: "csv_row \<Rightarrow> row" where
  "clean_row c =
     \<lparr> location_city = (case csv_location_city c of None \<Rightarrow> ''Unknown'' | Some s \<Rightarrow> s),
       location_latitude = csv_location_latitude c,
       location_longitude = csv_location_longitude c,
       statistics_height = csv_statistics_height c,
       status_completed_year =
         (if csv_status_completed_year c = 0 then None else Some (csv_status_completed_year c)),
       id_col = csv_id c \<rparr>"

definition df :: "csv_row list \<Rightarrow> row list" where
  "df csv = map clean_row csv"

subsection \<open>The filter (lines 76 to 83)\<close>

text \<open>A comparison of a float that may be NaN with a number: with NaN it is false.\<close>

fun nan_ge :: "int option \<Rightarrow> int \<Rightarrow> bool" where
  "nan_ge None b = False"
| "nan_ge (Some y) b = (b \<le> y)"

fun nan_le :: "int option \<Rightarrow> int \<Rightarrow> bool" where
  "nan_le None b = False"
| "nan_le (Some y) b = (y \<le> b)"

text \<open>
  \<^verbatim>\<open>year_range\<close> and \<^verbatim>\<open>height_range\<close> are the pairs of integers the two sliders return,
  \<^verbatim>\<open>city_filter\<close> the list the multiselect returns. The boolean mask of the four
  comparisons selects rows; the \<^verbatim>\<open>isin\<close> selection runs only when the list is not
  empty (\<^verbatim>\<open>if city_filter:\<close>).
\<close>

definition filtered_df :: "row list \<Rightarrow> int \<times> int \<Rightarrow> int \<times> int \<Rightarrow> string list \<Rightarrow> row list" where
  "filtered_df d year_range height_range city_filter =
     (let masked = filter (\<lambda>r.
            nan_ge (status_completed_year r) (fst year_range) \<and>
            nan_le (status_completed_year r) (snd year_range) \<and>
            of_int (fst height_range) \<le> statistics_height r \<and>
            statistics_height r \<le> of_int (snd height_range)) d
      in if city_filter \<noteq> []
         then filter (\<lambda>r. location_city r \<in> set city_filter) masked
         else masked)"

subsection \<open>The projection (line 94)\<close>

definition drop_columns :: "row list \<Rightarrow> view_row list" where
  "drop_columns d = map (\<lambda>r.
     \<lparr> location_city = location_city r,
       location_latitude = location_latitude r,
       location_longitude = location_longitude r,
       statistics_height = statistics_height r,
       status_completed_year = status_completed_year r \<rparr>) d"

subsection \<open>Library operations the tabs use\<close>

text \<open>\<^verbatim>\<open>np.round\<close> to a whole number: the nearest integer, a tie going to the even one.\<close>

definition rint :: "rat \<Rightarrow> int" where
  "rint x =
     (let f = \<lfloor>x\<rfloor>; d = x - of_int f
      in if d < 1 / 2 then f
         else if 1 / 2 < d then f + 1
         else if even f then f else f + 1)"

text \<open>
  \<^verbatim>\<open>round(x, 2)\<close> on a numpy float: the nearest multiple of 0.01, a tie going to the
  even one (scale by 100, round to a whole number, scale back).
\<close>

definition round2 :: "rat \<Rightarrow> rat" where
  "round2 x = of_int (rint (x * 100)) / 100"

text \<open>\<^verbatim>\<open>Series.unique\<close>: the distinct values in order of first appearance.\<close>

definition unique :: "'a list \<Rightarrow> 'a list" where
  "unique xs = rev (remdups (rev xs))"

text \<open>
  \<^verbatim>\<open>Series.value_counts\<close>: one entry per distinct value with the number of its
  occurrences, sorted by descending count. The library leaves the order of equal
  counts open; the model keeps them in order of first appearance (a stable sort).
\<close>

definition value_counts :: "'a list \<Rightarrow> ('a \<times> nat) list" where
  "value_counts xs =
     sort_key (\<lambda>kc. - int (snd kc)) (map (\<lambda>k. (k, count_list xs k)) (unique xs))"

text \<open>\<^verbatim>\<open>Series.sort_index\<close> on a series with distinct integer labels.\<close>

definition sort_index :: "(int \<times> nat) list \<Rightarrow> (int \<times> nat) list" where
  "sort_index s = sort_key fst s"

text \<open>\<^verbatim>\<open>Series.dropna\<close>.\<close>

definition dropna :: "'a option list \<Rightarrow> 'a list" where
  "dropna xs = concat (map (\<lambda>x. case x of None \<Rightarrow> [] | Some v \<Rightarrow> [v]) xs)"

text \<open>
  \<^verbatim>\<open>a.add(b, fill_value=0)\<close> on two series with distinct integer labels: the labels
  are the union of both, a label missing on one side counts 0 there.
\<close>

definition value_at :: "(int \<times> nat) list \<Rightarrow> int \<Rightarrow> nat" where
  "value_at s k = (case map_of s k of None \<Rightarrow> 0 | Some v \<Rightarrow> v)"

definition add_fill_value_0 :: "(int \<times> nat) list \<Rightarrow> (int \<times> nat) list \<Rightarrow> (int \<times> nat) list" where
  "add_fill_value_0 a b =
     map (\<lambda>k. (k, value_at a k + value_at b k)) (sort (remdups (map fst a @ map fst b)))"

text \<open>
  The reductions of a float series. On an empty series (or one of NaN only)
  \<^verbatim>\<open>max\<close>, \<^verbatim>\<open>min\<close>, \<^verbatim>\<open>mean\<close> and \<^verbatim>\<open>median\<close> return NaN and raise nothing.
\<close>

definition series_max :: "rat list \<Rightarrow> rat option" where
  "series_max hs = (if hs = [] then None else Some (Max (set hs)))"

definition series_min :: "rat list \<Rightarrow> rat option" where
  "series_min hs = (if hs = [] then None else Some (Min (set hs)))"

definition series_mean :: "rat list \<Rightarrow> rat option" where
  "series_mean hs = (if hs = [] then None else Some (sum_list hs / of_nat (length hs)))"

definition series_median :: "rat list \<Rightarrow> rat option" where
  "series_median hs =
     (if hs = [] then None
      else let s = sort hs; n = length s
           in if odd n then Some (s ! (n div 2))
              else Some ((s ! (n div 2 - 1) + s ! (n div 2)) / 2))"

subsection \<open>Tab 1: the table (lines 102 to 104)\<close>

definition tab1 :: "view_row list \<Rightarrow> view_row list \<times> view_row list" where
  "tab1 fdf = (fdf, fdf)"

subsection \<open>Tab 2: the 3D map (lines 107 to 152)\<close>

text \<open>
  Line 111 assigns the rounded heights to the column of \<^verbatim>\<open>filtered_df\<close> itself, before
  and outside the test for an empty table.
\<close>

definition round_heights :: "view_row list \<Rightarrow> view_row list" where
  "round_heights fdf =
     map (\<lambda>r. r\<lparr>statistics_height := of_int (rint (statistics_height r))\<rparr>) fdf"

text \<open>
  What the tab shows: the message, or the deck with its camera centre (the means of
  the latitudes and longitudes that are present) over the rows of the selected city.
  The select box is read in its initial state (\<^verbatim>\<open>index=0\<close>, the first city; the table
  has a row there, so the list of its cities has a first element). Both coordinate
  columns are fields of every row, so the two column tests are true.
\<close>

datatype map_view = No_map_data | Deck string "rat option" "rat option" "view_row list"

definition tab2 :: "view_row list \<Rightarrow> view_row list \<times> map_view" where
  "tab2 fdf =
     (let fdf' = round_heights fdf
      in if fdf' \<noteq> []
         then
           (let unique_cities = unique (map location_city fdf');
                selected_city = hd unique_cities;
                city_data = filter (\<lambda>r. location_city r = selected_city) fdf'
            in (fdf', Deck selected_city
                        (series_mean (dropna (map location_latitude city_data)))
                        (series_mean (dropna (map location_longitude city_data)))
                        city_data))
         else (fdf', No_map_data))"

subsection \<open>Tab 3: the statistics (lines 155 to 171)\<close>

record summary =
  tallest_skyscraper_height :: "rat option"
  shortest_skyscraper_height :: "rat option"
  average_skyscraper_height :: "rat option"
  median_skyscraper_height :: "rat option"
  number_of_skyscrapers :: nat

definition filtered_df_nonzero :: "view_row list \<Rightarrow> view_row list" where
  "filtered_df_nonzero fdf = filter (\<lambda>r. 0 < statistics_height r) fdf"

definition summary :: "view_row list \<Rightarrow> summary" where
  "summary fdf =
     (let hs = map statistics_height (filtered_df_nonzero fdf)
      in \<lparr> tallest_skyscraper_height = series_max hs,
           shortest_skyscraper_height = series_min hs,
           average_skyscraper_height = map_option round2 (series_mean hs),
           median_skyscraper_height = series_median hs,
           number_of_skyscrapers = length (filtered_df_nonzero fdf) \<rparr>)"

definition tab3 :: "view_row list \<Rightarrow> view_row list \<times> summary" where
  "tab3 fdf = (fdf, summary fdf)"

subsection \<open>Tab 4: the top cities (lines 174 to 186)\<close>

definition city_counts :: "view_row list \<Rightarrow> (string \<times> nat) list" where
  "city_counts fdf = take 10 (value_counts (map location_city fdf))"

definition tab4 :: "view_row list \<Rightarrow> view_row list \<times> (string \<times> nat) list" where
  "tab4 fdf = (fdf, city_counts fdf)"

subsection \<open>Tab 5: the trend over time (lines 189 to 203)\<close>

text \<open>
  Line 191 counts the years that are present and sorts by year. Line 192 takes the
  least label: on an empty index \<^verbatim>\<open>min()\<close> is NaN and \<^verbatim>\<open>int(NaN)\<close> raises
  \<^verbatim>\<open>ValueError\<close>. \<^verbatim>\<open>RangeIndex(start, stop=2025)\<close> holds the years from \<^verbatim>\<open>start\<close> up to
  2024. Line 193 adds the two series and sorts by year again.
\<close>

definition year_counts :: "view_row list \<Rightarrow> py_error + (int \<times> nat) list" where
  "year_counts fdf =
     (let yc = sort_index (value_counts (dropna (map status_completed_year fdf)))
      in if yc = [] then Inl ValueError
         else
           (let all_years = map (\<lambda>y. (y, 0)) [Min (set (map fst yc)) .. 2025 - 1]
            in Inr (sort_index (add_fill_value_0 all_years yc))))"

definition tab5 :: "view_row list \<Rightarrow> py_error + view_row list \<times> (int \<times> nat) list" where
  "tab5 fdf = (case year_counts fdf of Inl e \<Rightarrow> Inl e | Inr yc \<Rightarrow> Inr (fdf, yc))"

subsection \<open>Tab 6: the download (lines 206 to 217)\<close>

text \<open>The CSV text is stood for by the rows it is written from.\<close>

datatype download = Download_csv "view_row list" | No_data_available

definition tab6 :: "view_row list \<Rightarrow> view_row list \<times> download" where
  "tab6 fdf = (fdf, if fdf \<noteq> [] then Download_csv fdf else No_data_available)"

subsection \<open>The script\<close>

text \<open>
  The tabs run in the order of the script, each on the table the one before left. An
  exception ends the run: the tabs rendered before it stay on the page, the tab that
  raised shows the exception, and what follows is not rendered (\<open>None\<close>).
\<close>

record page =
  filtered_data :: "view_row list"
  map_3d :: map_view
  statistics :: summary
  top_cities :: "(string \<times> nat) list"
  trend_over_time :: "py_error + (int \<times> nat) list"
  download_data :: "download option"

definition tabs :: "view_row list \<Rightarrow> page" where
  "tabs fdf0 =
     (let (fdf1, out1) = tab1 fdf0;
          (fdf2, out2) = tab2 fdf1;
          (fdf3, out3) = tab3 fdf2;
          (fdf4, out4) = tab4 fdf3
      in case tab5 fdf4 of
           Inl e \<Rightarrow>
             \<lparr> filtered_data = out1, map_3d = out2, statistics = out3, top_cities = out4,
               trend_over_time = Inl e, download_data = None \<rparr>
         | Inr (fdf5, out5) \<Rightarrow>
             (let (fdf6, out6) = tab6 fdf5
              in \<lparr> filtered_data = out1, map_3d = out2, statistics = out3, top_cities = out4,
                   trend_over_time = Inr out5, download_data = Some out6 \<rparr>))"

definition script :: "csv_row list \<Rightarrow> int \<times> int \<Rightarrow> int \<times> int \<Rightarrow> string list \<Rightarrow> page" where
  "script csv year_range height_range city_filter =
     tabs (drop_columns (filtered_df (df csv) year_range height_range city_filter))"

subsection \<open>The filter as the specification words it\<close>

text \<open>
  The three predicates of the specification's contract for the Filter Engine: the year
  within its bounds, the height within its bounds, and the city selected or no city
  selected at all. A year that is unknown is within no bounds.
\<close>

definition spec_year_ok :: "int \<Rightarrow> int \<Rightarrow> row \<Rightarrow> bool" where
  "spec_year_ok yearMin yearMax r =
     (case status_completed_year r of None \<Rightarrow> False | Some y \<Rightarrow> yearMin \<le> y \<and> y \<le> yearMax)"

definition spec_height_ok :: "int \<Rightarrow> int \<Rightarrow> row \<Rightarrow> bool" where
  "spec_height_ok heightMin heightMax r =
     (of_int heightMin \<le> statistics_height r \<and> statistics_height r \<le> of_int heightMax)"

definition spec_city_ok :: "string set \<Rightarrow> row \<Rightarrow> bool" where
  "spec_city_ok cities r = (cities = {} \<or> location_city r \<in> cities)"

text \<open>The completed years that are present in a table, one per row that has one.\<close>

definition present_years :: "view_row list \<Rightarrow> int list" where
  "present_years fdf = dropna (map status_completed_year fdf)"

subsection \<open>Sample tables\<close>

definition chicago_1998 :: csv_row where
  "chicago_1998 =
     \<lparr> csv_id = 1, csv_location_city = Some ''Chicago'', csv_location_latitude = Some (419 / 10),
       csv_location_longitude = Some (- 876 / 10), csv_statistics_height = 201 / 2,
       csv_status_completed_year = 1998 \<rparr>"

definition boston_1998 :: csv_row where
  "boston_1998 =
     \<lparr> csv_id = 2, csv_location_city = Some ''Boston'', csv_location_latitude = None,
       csv_location_longitude = None, csv_statistics_height = 150,
       csv_status_completed_year = 1998 \<rparr>"

definition chicago_2005 :: csv_row where
  "chicago_2005 =
     \<lparr> csv_id = 3, csv_location_city = Some ''Chicago'', csv_location_latitude = Some (419 / 10),
       csv_location_longitude = Some (- 876 / 10), csv_statistics_height = 2 / 5,
       csv_status_completed_year = 2005 \<rparr>"

definition nowhere_unknown :: csv_row where
  "nowhere_unknown =
     \<lparr> csv_id = 4, csv_location_city = None, csv_location_latitude = None,
       csv_location_longitude = None, csv_statistics_height = 300,
       csv_status_completed_year = 0 \<rparr>"

definition sample_csv :: "csv_row list" where
  "sample_csv = [chicago_1998, boston_1998, chicago_2005, nowhere_unknown]"

definition tower_2020 :: csv_row where
  "tower_2020 =
     \<lparr> csv_id = 5, csv_location_city = Some ''Dubai'', csv_location_latitude = Some 25,
       csv_location_longitude = Some 55, csv_statistics_height = 400,
       csv_status_completed_year = 2020 \<rparr>"

definition tower_2030 :: csv_row where
  "tower_2030 =
     \<lparr> csv_id = 6, csv_location_city = Some ''Dubai'', csv_location_latitude = Some 25,
       csv_location_longitude = Some 55, csv_statistics_height = 1000,
       csv_status_completed_year = 2030 \<rparr>"

text \<open>Filtered subsets, each the projected output of the filter on a sample table.\<close>

definition sample_filtered :: "view_row list" where
  "sample_filtered = drop_columns (filtered_df (df sample_csv) (1990, 2010) (0, 1609) [])"

definition future_filtered :: "view_row list" where
  "future_filtered =
     drop_columns (filtered_df (df [tower_2020, tower_2030]) (1850, 2030) (0, 1609) [])"

definition single_filtered :: "view_row list" where
  "single_filtered = drop_columns (filtered_df (df [chicago_1998]) (1990, 2010) (0, 1609) [])"

definition low_filtered :: "view_row list" where
  "low_filtered = drop_columns (filtered_df (df [chicago_2005]) (1990, 2010) (0, 1609) [])"

section \<open>Properties of the filter\<close>

lemma spec_year_ok_iff:
  "spec_year_ok lo hi r =
     (nan_ge (status_completed_year r) lo \<and> nan_le (status_completed_year r) hi)"
  by (cases "status_completed_year r") (simp_all add: spec_year_ok_def)

lemma filtered_df_eq_filter:
  "filtered_df d (yearMin, yearMax) (heightMin, heightMax) cities =
     filter (\<lambda>r. spec_year_ok yearMin yearMax r \<and> spec_height_ok heightMin heightMax r \<and>
                 spec_city_ok (set cities) r) d"
proof (cases "cities = []")
  case True
  then show ?thesis
    by (simp add: filtered_df_def spec_year_ok_iff spec_height_ok_def spec_city_ok_def)
next
  case False
  have "filtered_df d (yearMin, yearMax) (heightMin, heightMax) cities =
        filter (\<lambda>r. location_city r \<in> set cities)
          (filter (\<lambda>r. spec_year_ok yearMin yearMax r \<and> spec_height_ok heightMin heightMax r) d)"
    using False by (simp add: filtered_df_def spec_year_ok_iff spec_height_ok_def)
  also have "\<dots> = filter (\<lambda>r. spec_year_ok yearMin yearMax r \<and>
                 spec_height_ok heightMin heightMax r \<and> spec_city_ok (set cities) r) d"
    using False by (simp add: spec_city_ok_def conj_commute conj_left_commute)
  finally show ?thesis .
qed

lemmas sample_defs = sample_csv_def chicago_1998_def boston_1998_def chicago_2005_def
  nowhere_unknown_def df_def clean_row_def

text \<open>
  Claim C1. For every table and all bounds (so for all valid ones, with
  \<open>yearMin \<le> yearMax\<close> and \<open>heightMin \<le> heightMax\<close>) and every city selection, the
  output of the filter is a part of the input table, every row it keeps satisfies the
  year, the height and the city predicate, and no row of the table that it leaves out
  satisfies all three.
\<close>

theorem filter_engine_contract:
  "mset (filtered_df d (yearMin, yearMax) (heightMin, heightMax) cities) \<subseteq># mset d \<and>
   (\<forall>r \<in> set (filtered_df d (yearMin, yearMax) (heightMin, heightMax) cities).
      spec_year_ok yearMin yearMax r \<and> spec_height_ok heightMin heightMax r \<and>
      spec_city_ok (set cities) r) \<and>
   (\<forall>r \<in> set d. r \<notin> set (filtered_df d (yearMin, yearMax) (heightMin, heightMax) cities) \<longrightarrow>
      \<not> (spec_year_ok yearMin yearMax r \<and> spec_height_ok heightMin heightMax r \<and>
         spec_city_ok (set cities) r))"
  by (simp add: filtered_df_eq_filter)

theorem filter_engine_contract_witness:
  "clean_row chicago_2005 \<in> set (filtered_df (df sample_csv) (2000, 2010) (0, 1609) []) \<and>
   spec_year_ok 2000 2010 (clean_row chicago_2005) \<and>
   spec_height_ok 0 1609 (clean_row chicago_2005) \<and>
   spec_city_ok (set []) (clean_row chicago_2005) \<and>
   clean_row chicago_1998 \<in> set (df sample_csv) \<and>
   clean_row chicago_1998 \<notin> set (filtered_df (df sample_csv) (2000, 2010) (0, 1609) []) \<and>
   \<not> spec_year_ok 2000 2010 (clean_row chicago_1998)"
  using filter_engine_contract [of "df sample_csv" 2000 2010 0 1609 "[]"]
  by (simp add: sample_defs filtered_df_def spec_year_ok_def spec_height_ok_def spec_city_ok_def)

text \<open>
  Claim C2. A row whose completed year is unknown is in the output of the filter for
  no year range, whatever the table, the height range and the city selection; and the
  cleaning step makes the year of a row unknown when the file has the year 0.
\<close>

theorem unknown_year_excluded:
  "(status_completed_year r = None \<longrightarrow>
      r \<notin> set (filtered_df d (yearMin, yearMax) (heightMin, heightMax) cities)) \<and>
   (csv_status_completed_year c = 0 \<longrightarrow> status_completed_year (clean_row c) = None)"
  by (simp add: filtered_df_eq_filter spec_year_ok_def clean_row_def)

theorem unknown_year_excluded_witness:
  "csv_status_completed_year nowhere_unknown = 0 \<and>
   status_completed_year (clean_row nowhere_unknown) = None \<and>
   clean_row nowhere_unknown \<in> set (df sample_csv) \<and>
   clean_row nowhere_unknown \<notin>
     set (filtered_df (df sample_csv) (- 100000, 100000) (0, 1609) [])"
  using unknown_year_excluded [of "clean_row nowhere_unknown" "df sample_csv"
      "- 100000" 100000 0 1609 "[]" nowhere_unknown]
  by (simp add: sample_defs)

text \<open>
  Claim C8. With no city selected, the filter returns exactly the rows that satisfy the
  year and the height predicate, in table order: the city predicate has no effect.
\<close>

theorem empty_city_selection:
  "filtered_df d (yearMin, yearMax) (heightMin, heightMax) [] =
     filter (\<lambda>r. spec_year_ok yearMin yearMax r \<and> spec_height_ok heightMin heightMax r) d"
  by (simp add: filtered_df_eq_filter spec_city_ok_def)

theorem empty_city_selection_witness:
  "filtered_df (df sample_csv) (1990, 2010) (0, 1609) [] =
     [clean_row chicago_1998, clean_row boston_1998, clean_row chicago_2005] \<and>
   filter (\<lambda>r. spec_year_ok 1990 2010 r \<and> spec_height_ok 0 1609 r) (df sample_csv) =
     [clean_row chicago_1998, clean_row boston_1998, clean_row chicago_2005]"
  using empty_city_selection [of "df sample_csv" 1990 2010 0 1609]
  by (simp add: sample_defs spec_year_ok_def spec_height_ok_def)

text \<open>
  Claim C9. Filtering is idempotent: the filter applied to its own output, with the
  same parameters, returns that output again (the same rows in the same order).
\<close>

theorem filtering_idempotent:
  "filtered_df (filtered_df d (yearMin, yearMax) (heightMin, heightMax) cities)
       (yearMin, yearMax) (heightMin, heightMax) cities =
     filtered_df d (yearMin, yearMax) (heightMin, heightMax) cities"
  by (simp add: filtered_df_eq_filter)

theorem filtering_idempotent_witness:
  "filtered_df (filtered_df (df sample_csv) (1990, 2010) (0, 1609) [''Chicago''])
       (1990, 2010) (0, 1609) [''Chicago''] =
     [clean_row chicago_1998, clean_row chicago_2005]"
  using filtering_idempotent [of "df sample_csv" 1990 2010 0 1609 "[''Chicago'']"]
  by (simp add: sample_defs filtered_df_def)

text \<open>
  Claim C10. The filter keeps the order of the rows: its output is a subsequence of
  the input table, nothing duplicated and nothing moved.
\<close>

theorem filter_preserves_order:
  "subseq (filtered_df d (yearMin, yearMax) (heightMin, heightMax) cities) d"
  by (simp add: filtered_df_eq_filter)

theorem filter_preserves_order_witness:
  "subseq [clean_row chicago_1998, clean_row chicago_2005] (df sample_csv)"
  using filter_preserves_order [of "df sample_csv" 1990 2010 0 1609 "[''Chicago'']"]
  by (simp add: sample_defs filtered_df_def)

section \<open>Properties of the library operations\<close>

lemma set_unique: "set (unique xs) = set xs"
  by (simp add: unique_def)

lemma distinct_unique: "distinct (unique xs)"
  by (simp add: unique_def)

lemma set_value_counts: "set (value_counts xs) = (\<lambda>k. (k, count_list xs k)) ` set xs"
  by (simp add: value_counts_def set_unique)

lemma distinct_keys_value_counts: "distinct (map fst (value_counts xs))"
proof -
  have "mset (map fst (value_counts xs)) = mset (unique xs)"
    by (simp add: value_counts_def multiset.map_comp comp_def)
  then show ?thesis
    using distinct_unique [of xs] by (metis mset_eq_imp_distinct_iff)
qed

lemma set_sort_index: "set (sort_index s) = set s"
  by (simp add: sort_index_def)

lemma distinct_keys_sort_index:
  "distinct (map fst s) \<Longrightarrow> distinct (map fst (sort_index s))"
proof -
  assume d: "distinct (map fst s)"
  have "mset (map fst (sort_index s)) = mset (map fst s)"
    by (simp add: sort_index_def)
  then show ?thesis
    using d by (metis mset_eq_imp_distinct_iff)
qed

lemma value_at_counts:
  "value_at (sort_index (value_counts ys)) k = count_list ys k"
proof (cases "k \<in> set ys")
  case True
  have "distinct (map fst (sort_index (value_counts ys)))"
    by (rule distinct_keys_sort_index) (rule distinct_keys_value_counts)
  moreover have "(k, count_list ys k) \<in> set (sort_index (value_counts ys))"
    using True by (simp add: set_sort_index set_value_counts)
  ultimately have "map_of (sort_index (value_counts ys)) k = Some (count_list ys k)"
    by simp
  then show ?thesis by (simp add: value_at_def)
next
  case False
  then have "k \<notin> fst ` set (sort_index (value_counts ys))"
    by (auto simp add: set_sort_index set_value_counts)
  then have "map_of (sort_index (value_counts ys)) k = None"
    by (simp add: map_of_eq_None_iff)
  then show ?thesis using False by (simp add: value_at_def count_notin)
qed

lemma value_at_zeros: "value_at (map (\<lambda>y. (y, 0)) ks) k = 0"
  by (induction ks) (simp_all add: value_at_def)

lemma keys_counts: "set (map fst (sort_index (value_counts ys))) = set ys"
  by (auto simp add: set_sort_index set_value_counts image_iff)

lemma counts_empty_iff: "sort_index (value_counts ys) = [] \<longleftrightarrow> ys = []"
proof -
  have "sort_index (value_counts ys) = [] \<longleftrightarrow> set (map fst (sort_index (value_counts ys))) = {}"
    by simp
  then show ?thesis unfolding keys_counts by simp
qed

lemma sort_index_labelled:
  "sorted ks \<Longrightarrow> sort_index (map (\<lambda>k. (k, f k)) ks) = map (\<lambda>k. (k, f k)) ks"
  by (simp add: sort_index_def sort_key_id_if_sorted comp_def)

lemma year_counts_eq:
  "year_counts fdf =
     (if present_years fdf = [] then Inl ValueError
      else Inr (map (\<lambda>k. (k, count_list (present_years fdf) k))
             (sorted_list_of_set
                ({Min (set (present_years fdf)) .. 2024} \<union> set (present_years fdf)))))"
proof -
  define ys where "ys = present_years fdf"
  define yc where "yc = sort_index (value_counts ys)"
  define all_years where "all_years = map (\<lambda>y. (y, 0::nat)) [Min (set ys) .. 2024]"
  have keys: "sort (remdups (map fst all_years @ map fst yc)) =
      sorted_list_of_set ({Min (set ys) .. 2024} \<union> set ys)"
  proof -
    have "set (map fst all_years @ map fst yc) = {Min (set ys) .. 2024} \<union> set ys"
      using keys_counts [of ys] by (simp add: all_years_def yc_def comp_def)
    then show ?thesis
      by (metis sorted_list_of_set_sort_remdups)
  qed
  have "add_fill_value_0 all_years yc =
      map (\<lambda>k. (k, count_list ys k)) (sorted_list_of_set ({Min (set ys) .. 2024} \<union> set ys))"
    unfolding add_fill_value_0_def keys
    by (simp add: all_years_def yc_def value_at_zeros value_at_counts)
  then have "sort_index (add_fill_value_0 all_years yc) =
      map (\<lambda>k. (k, count_list ys k)) (sorted_list_of_set ({Min (set ys) .. 2024} \<union> set ys))"
    by (simp add: sort_index_labelled)
  moreover have "year_counts fdf =
      (if yc = [] then Inl ValueError else Inr (sort_index (add_fill_value_0 all_years yc)))"
    by (simp add: year_counts_def Let_def yc_def ys_def present_years_def all_years_def
        keys_counts [of "dropna (map status_completed_year fdf)", simplified])
  ultimately show ?thesis
    by (simp add: yc_def counts_empty_iff ys_def)
qed

section \<open>The top cities\<close>

lemma value_counts_descending: "sorted_wrt (\<lambda>a b. snd b \<le> snd a) (value_counts xs)"
proof -
  have "sorted (map (\<lambda>kc. - int (snd kc)) (value_counts xs))"
    by (simp add: value_counts_def)
  then show ?thesis
    by (simp add: sorted_map)
qed

text \<open>
  Claim C7. For every filtered subset the top-cities view returns at most 10 entries,
  sorted by descending count; every entry is a city of the subset with the number of
  its rows.
\<close>

theorem top_cities_at_most_ten_descending:
  "length (city_counts fdf) \<le> 10 \<and>
   sorted_wrt (\<lambda>a b. snd b \<le> snd a) (city_counts fdf) \<and>
   (\<forall>e \<in> set (city_counts fdf).
      fst e \<in> set (map location_city fdf) \<and> snd e = count_list (map location_city fdf) (fst e))"
proof -
  have "set (city_counts fdf) \<subseteq> set (value_counts (map location_city fdf))"
    by (simp add: city_counts_def set_take_subset)
  then have "\<forall>e \<in> set (city_counts fdf).
      fst e \<in> set (map location_city fdf) \<and> snd e = count_list (map location_city fdf) (fst e)"
    unfolding set_value_counts by auto
  moreover have "sorted_wrt (\<lambda>a b. snd b \<le> snd a) (city_counts fdf)"
    unfolding city_counts_def by (rule sorted_wrt_take) (rule value_counts_descending)
  moreover have "length (city_counts fdf) \<le> 10"
    by (simp add: city_counts_def)
  ultimately show ?thesis by blast
qed

theorem top_cities_at_most_ten_descending_witness:
  "city_counts sample_filtered = [(''Chicago'', 2), (''Boston'', 1)] \<and>
   length (city_counts sample_filtered) \<le> 10 \<and>
   (''Chicago'', 2) \<in> set (city_counts sample_filtered) \<and>
   count_list (map location_city sample_filtered) ''Chicago'' = 2"
proof -
  have e: "city_counts sample_filtered = [(''Chicago'', 2), (''Boston'', 1)]"
    by code_simp
  show ?thesis
    using top_cities_at_most_ten_descending [of sample_filtered] e by simp
qed

section \<open>The trend over time\<close>

text \<open>
  Claim C4, as the code has it. For a filtered subset with at least one completed year,
  all of them below 2025, and \<open>minYear\<close> the least of them, the trend view returns the
  years from \<open>minYear\<close> to 2024 in order, each with the number of rows completed in that
  year: \<open>2025 - minYear\<close> entries without a gap, and count 0 for every year of the
  range that is absent from the data.
\<close>

theorem trend_dense_below_2025:
  assumes "present_years fdf \<noteq> []"
    and "\<forall>y \<in> set (present_years fdf). y < 2025"
    and "minYear = Min (set (present_years fdf))"
  shows "year_counts fdf =
           Inr (map (\<lambda>y. (y, count_list (present_years fdf) y)) [minYear .. 2024]) \<and>
         int (length (map (\<lambda>y. (y, count_list (present_years fdf) y)) [minYear .. 2024])) =
           2025 - minYear \<and>
         (\<forall>y \<in> set [minYear .. 2024].
            y \<notin> set (present_years fdf) \<longrightarrow> count_list (present_years fdf) y = 0)"
proof -
  have "set (present_years fdf) \<subseteq> {minYear .. 2024}"
    using assms by (auto simp add: Min_le)
  then have "{minYear .. 2024} \<union> set (present_years fdf) = {minYear .. 2024}"
    by blast
  then have "year_counts fdf =
      Inr (map (\<lambda>y. (y, count_list (present_years fdf) y)) [minYear .. 2024])"
    using assms(1,3) by (simp add: year_counts_eq sorted_lift_of_set_eq_upto)
  moreover have "minYear \<le> 2024"
  proof -
    have "minYear \<in> set (present_years fdf)"
      using assms(1,3) by (simp add: Min_in)
    then have "minYear < 2025"
      using assms(2) by blast
    then show ?thesis by simp
  qed
  ultimately show ?thesis
    by (simp add: count_notin)
qed

theorem trend_dense_below_2025_witness:
  "present_years sample_filtered = [1998, 1998, 2005] \<and>
   Min (set (present_years sample_filtered)) = 1998 \<and>
   year_counts sample_filtered =
     Inr (map (\<lambda>y. (y, count_list (present_years sample_filtered) y)) [1998 .. 2024]) \<and>
   int (length (map (\<lambda>y. (y, count_list (present_years sample_filtered) y)) [1998 .. 2024])) =
     2025 - 1998 \<and>
   1999 \<in> set [1998 .. 2024] \<and>
   1999 \<notin> set (present_years sample_filtered) \<and>
   count_list (present_years sample_filtered) 1999 = 0"
proof -
  have ys: "present_years sample_filtered = [1998, 1998, 2005]"
    by code_simp
  have h1: "present_years sample_filtered \<noteq> []"
    by (simp add: ys)
  have h2: "\<forall>y \<in> set (present_years sample_filtered). y < 2025"
    by (simp add: ys)
  have h3: "1998 = Min (set (present_years sample_filtered))"
    by (simp add: ys)
  show ?thesis
    using trend_dense_below_2025 [OF h1 h2 h3] ys by simp
qed

text \<open>
  The trend view on a filtered subset with the completed years 2020 and 2030: six
  entries, not \<open>2025 - 2020\<close>, and a gap between 2024 and 2030.
\<close>

theorem trend_beyond_2025_counterexample:
  "future_filtered \<noteq> [] \<and>
   Min (set (present_years future_filtered)) = 2020 \<and>
   year_counts future_filtered =
     Inr [(2020, 1), (2021, 0), (2022, 0), (2023, 0), (2024, 0), (2030, 1)] \<and>
   int (length [(2020 :: int, 1 :: nat), (2021, 0), (2022, 0), (2023, 0), (2024, 0), (2030, 1)])
     \<noteq> 2025 - 2020"
  by code_simp

section \<open>The tabs and the shared table\<close>

lemma rint_of_int: "rint (of_int n) = n"
  by (simp add: rint_def)

lemma round2_of_int: "round2 (of_int n) = of_int n"
proof -
  have "rint (of_int n * 100) = n * 100"
    using rint_of_int [of "n * 100"] by simp
  then show ?thesis by (simp add: round2_def)
qed

lemma summary_single:
  assumes "filtered_df_nonzero fdf = [r]"
  shows "summary fdf =
     \<lparr> tallest_skyscraper_height = Some (statistics_height r),
       shortest_skyscraper_height = Some (statistics_height r),
       average_skyscraper_height = Some (round2 (statistics_height r)),
       median_skyscraper_height = Some (statistics_height r),
       number_of_skyscrapers = 1 \<rparr>"
  using assms
  by (simp add: summary_def series_max_def series_min_def series_mean_def series_median_def)

lemma summary_none:
  assumes "filtered_df_nonzero fdf = []"
  shows "summary fdf =
     \<lparr> tallest_skyscraper_height = None, shortest_skyscraper_height = None,
       average_skyscraper_height = None, median_skyscraper_height = None,
       number_of_skyscrapers = 0 \<rparr>"
  using assms
  by (simp add: summary_def series_max_def series_min_def series_mean_def series_median_def)

lemma nonzero_idem: "filtered_df_nonzero (filtered_df_nonzero fdf) = filtered_df_nonzero fdf"
  by (simp add: filtered_df_nonzero_def)

lemma summary_nonzero: "summary (filtered_df_nonzero fdf) = summary fdf"
  by (simp add: summary_def nonzero_idem)

lemma nonzero_round_heights:
  "filtered_df_nonzero (round_heights fdf) =
     round_heights (filter (\<lambda>r. 0 < rint (statistics_height r)) fdf)"
  by (simp add: filtered_df_nonzero_def round_heights_def filter_map comp_def)

lemma city_round_heights: "map location_city (round_heights fdf) = map location_city fdf"
  by (simp add: round_heights_def)

lemma year_round_heights:
  "map status_completed_year (round_heights fdf) = map status_completed_year fdf"
  by (simp add: round_heights_def)

lemma city_counts_round_heights: "city_counts (round_heights fdf) = city_counts fdf"
  by (simp add: city_counts_def city_round_heights)

lemma year_counts_round_heights: "year_counts (round_heights fdf) = year_counts fdf"
  by (simp add: year_counts_def year_round_heights)

lemma fst_tab2: "fst (tab2 fdf) = round_heights fdf"
  by (simp add: tab2_def Let_def)

lemma tabs_eq:
  "tabs fdf =
     (case year_counts fdf of
        Inl e \<Rightarrow>
          \<lparr> filtered_data = fdf, map_3d = snd (tab2 fdf),
            statistics = summary (round_heights fdf), top_cities = city_counts fdf,
            trend_over_time = Inl e, download_data = None \<rparr>
      | Inr yc \<Rightarrow>
          \<lparr> filtered_data = fdf, map_3d = snd (tab2 fdf),
            statistics = summary (round_heights fdf), top_cities = city_counts fdf,
            trend_over_time = Inr yc,
            download_data = Some (snd (tab6 (round_heights fdf))) \<rparr>)"
  by (simp add: tabs_def split_beta tab1_def fst_tab2 tab3_def tab4_def tab5_def tab6_def
      city_counts_round_heights year_counts_round_heights split: sum.splits)

lemma statistics_tabs: "statistics (tabs fdf) = summary (round_heights fdf)"
  by (simp add: tabs_eq split: sum.splits)

text \<open>
  Claim C3, at an empty filtered subset (here: no row of the sample table was
  completed in 2010). The table, the map, the statistics and the top cities are
  rendered; the trend view raises \<open>ValueError\<close>, and the download tab is not reached.
\<close>

theorem empty_subset_trend_raises:
  "drop_columns (filtered_df (df sample_csv) (2010, 2010) (0, 1609) []) = [] \<and>
   year_counts [] = Inl ValueError \<and>
   script sample_csv (2010, 2010) (0, 1609) [] =
     \<lparr> filtered_data = [], map_3d = No_map_data,
       statistics =
         \<lparr> tallest_skyscraper_height = None, shortest_skyscraper_height = None,
           average_skyscraper_height = None, median_skyscraper_height = None,
           number_of_skyscrapers = 0 \<rparr>,
       top_cities = [], trend_over_time = Inl ValueError, download_data = None \<rparr>"
  by code_simp

text \<open>
  Claim C5, as the code has it. Of the six tabs only the 3D map changes the shared
  table: it replaces every height by its rounding to a whole number and leaves the
  other columns, the rows and their order as they are. The table tab, which runs
  before it, shows the heights of the filter output; the statistics and the download
  tab, which run after it, work on the rounded heights; the top cities and the trend
  read the city and the year column only and are the same as on the filter output.
\<close>

theorem only_map_tab_rounds_heights:
  "fst (tab1 fdf) = fdf \<and> fst (tab3 fdf) = fdf \<and> fst (tab4 fdf) = fdf \<and>
   fst (tab6 fdf) = fdf \<and>
   (\<forall>fdf' yc. tab5 fdf = Inr (fdf', yc) \<longrightarrow> fdf' = fdf) \<and>
   fst (tab2 fdf) = round_heights fdf \<and>
   map statistics_height (round_heights fdf) =
     map (\<lambda>r. of_int (rint (statistics_height r))) fdf \<and>
   map location_city (round_heights fdf) = map location_city fdf \<and>
   map location_latitude (round_heights fdf) = map location_latitude fdf \<and>
   map location_longitude (round_heights fdf) = map location_longitude fdf \<and>
   map status_completed_year (round_heights fdf) = map status_completed_year fdf \<and>
   filtered_data (tabs fdf) = fdf \<and>
   statistics (tabs fdf) = summary (round_heights fdf) \<and>
   top_cities (tabs fdf) = city_counts fdf \<and>
   trend_over_time (tabs fdf) = year_counts fdf \<and>
   (\<forall>yc. year_counts fdf = Inr yc \<longrightarrow>
      download_data (tabs fdf) = Some (snd (tab6 (round_heights fdf))))"
proof -
  have frame: "fst (tab1 fdf) = fdf \<and> fst (tab3 fdf) = fdf \<and> fst (tab4 fdf) = fdf \<and>
      fst (tab6 fdf) = fdf"
    by (simp add: tab1_def tab3_def tab4_def tab6_def)
  have frame5: "\<forall>fdf' yc. tab5 fdf = Inr (fdf', yc) \<longrightarrow> fdf' = fdf"
    by (auto simp add: tab5_def split: sum.splits)
  have columns: "map statistics_height (round_heights fdf) =
        map (\<lambda>r. of_int (rint (statistics_height r))) fdf \<and>
      map location_city (round_heights fdf) = map location_city fdf \<and>
      map location_latitude (round_heights fdf) = map location_latitude fdf \<and>
      map location_longitude (round_heights fdf) = map location_longitude fdf \<and>
      map status_completed_year (round_heights fdf) = map status_completed_year fdf"
    by (simp add: round_heights_def)
  have seen: "filtered_data (tabs fdf) = fdf \<and>
      statistics (tabs fdf) = summary (round_heights fdf) \<and>
      top_cities (tabs fdf) = city_counts fdf \<and>
      trend_over_time (tabs fdf) = year_counts fdf"
    by (simp add: tabs_eq split: sum.splits)
  have download: "\<forall>yc. year_counts fdf = Inr yc \<longrightarrow>
      download_data (tabs fdf) = Some (snd (tab6 (round_heights fdf)))"
    by (simp add: tabs_eq)
  from frame frame5 fst_tab2 [of fdf] columns seen download show ?thesis
    by blast
qed

theorem only_map_tab_rounds_heights_witness:
  "tab5 sample_filtered = Inr (sample_filtered, [(1998, 2), (1999, 0), (2000, 0), (2001, 0),
     (2002, 0), (2003, 0), (2004, 0), (2005, 1), (2006, 0), (2007, 0), (2008, 0), (2009, 0),
     (2010, 0), (2011, 0), (2012, 0), (2013, 0), (2014, 0), (2015, 0), (2016, 0), (2017, 0),
     (2018, 0), (2019, 0), (2020, 0), (2021, 0), (2022, 0), (2023, 0), (2024, 0)]) \<and>
   map statistics_height sample_filtered = [201 / 2, 150, 2 / 5] \<and>
   map statistics_height (fst (tab2 sample_filtered)) = [100, 150, 0] \<and>
   filtered_data (tabs sample_filtered) = sample_filtered \<and>
   download_data (tabs sample_filtered) = Some (Download_csv (round_heights sample_filtered))"
proof -
  have e5: "tab5 sample_filtered = Inr (sample_filtered, [(1998, 2), (1999, 0), (2000, 0),
     (2001, 0), (2002, 0), (2003, 0), (2004, 0), (2005, 1), (2006, 0), (2007, 0), (2008, 0),
     (2009, 0), (2010, 0), (2011, 0), (2012, 0), (2013, 0), (2014, 0), (2015, 0), (2016, 0),
     (2017, 0), (2018, 0), (2019, 0), (2020, 0), (2021, 0), (2022, 0), (2023, 0), (2024, 0)])"
    by code_simp
  have eh: "map statistics_height sample_filtered = [201 / 2, 150, 2 / 5]"
    by code_simp
  have er: "map (\<lambda>r. of_int (rint (statistics_height r))) sample_filtered = [100, 150, 0 :: rat]"
    by code_simp
  have e6: "snd (tab6 (round_heights sample_filtered)) =
      Download_csv (round_heights sample_filtered)"
    by code_simp
  have yc: "year_counts sample_filtered = Inr [(1998, 2), (1999, 0), (2000, 0),
     (2001, 0), (2002, 0), (2003, 0), (2004, 0), (2005, 1), (2006, 0), (2007, 0), (2008, 0),
     (2009, 0), (2010, 0), (2011, 0), (2012, 0), (2013, 0), (2014, 0), (2015, 0), (2016, 0),
     (2017, 0), (2018, 0), (2019, 0), (2020, 0), (2021, 0), (2022, 0), (2023, 0), (2024, 0)]"
    by code_simp
  show ?thesis
    using only_map_tab_rounds_heights [of sample_filtered] e5 eh er e6 yc by simp
qed

text \<open>
  Rendering the map changes what the statistics and the download tab see: on the
  sample subset the table after the map tab is not the filter output, the statistics
  shown are not those of the filter output, and the file offered is not the filter
  output.
\<close>

theorem map_tab_mutates_counterexample:
  "fst (tab2 sample_filtered) \<noteq> sample_filtered \<and>
   statistics (tabs sample_filtered) \<noteq> summary sample_filtered \<and>
   download_data (tabs sample_filtered) \<noteq> Some (Download_csv sample_filtered)"
  by code_simp

section \<open>The statistics\<close>

text \<open>
  Claim C6, as the code has it. The statistics are computed over the rows of
  positive height of the table the tab is given; when these are exactly one row, of
  height \<open>H\<close>, then max = min = median = \<open>H\<close>, the mean is \<open>H\<close> rounded to two decimal
  places, and the count is 1. The table the tab is given is the filtered subset with
  the heights rounded by the map tab. So when exactly one row of the filtered subset
  has a height that rounds to a positive whole number \<open>R\<close>, the view yields
  max = min = mean = median = \<open>R\<close> and count 1; on an empty subset it yields count 0
  and no numbers, without an error.
\<close>

theorem statistics_after_rounding:
  "number_of_skyscrapers (summary fdf) = length (filter (\<lambda>r. 0 < statistics_height r) fdf) \<and>
   summary (filter (\<lambda>r. 0 < statistics_height r) fdf) = summary fdf \<and>
   (filter (\<lambda>r. 0 < statistics_height r) fdf = [r] \<longrightarrow>
      summary fdf =
        \<lparr> tallest_skyscraper_height = Some (statistics_height r),
          shortest_skyscraper_height = Some (statistics_height r),
          average_skyscraper_height = Some (round2 (statistics_height r)),
          median_skyscraper_height = Some (statistics_height r),
          number_of_skyscrapers = 1 \<rparr>) \<and>
   statistics (tabs fdf) = summary (round_heights fdf) \<and>
   (filter (\<lambda>r. 0 < rint (statistics_height r)) fdf = [r] \<longrightarrow>
      statistics (tabs fdf) =
        \<lparr> tallest_skyscraper_height = Some (of_int (rint (statistics_height r))),
          shortest_skyscraper_height = Some (of_int (rint (statistics_height r))),
          average_skyscraper_height = Some (of_int (rint (statistics_height r))),
          median_skyscraper_height = Some (of_int (rint (statistics_height r))),
          number_of_skyscrapers = 1 \<rparr>) \<and>
   statistics (tabs []) =
     \<lparr> tallest_skyscraper_height = None, shortest_skyscraper_height = None,
       average_skyscraper_height = None, median_skyscraper_height = None,
       number_of_skyscrapers = 0 \<rparr>"
proof -
  have count: "number_of_skyscrapers (summary fdf) =
      length (filter (\<lambda>r. 0 < statistics_height r) fdf)"
    by (simp add: summary_def filtered_df_nonzero_def Let_def)
  have over: "summary (filter (\<lambda>r. 0 < statistics_height r) fdf) = summary fdf"
    using summary_nonzero [of fdf] by (simp add: filtered_df_nonzero_def)
  have alone: "filter (\<lambda>r. 0 < statistics_height r) fdf = [r] \<longrightarrow>
      summary fdf =
        \<lparr> tallest_skyscraper_height = Some (statistics_height r),
          shortest_skyscraper_height = Some (statistics_height r),
          average_skyscraper_height = Some (round2 (statistics_height r)),
          median_skyscraper_height = Some (statistics_height r),
          number_of_skyscrapers = 1 \<rparr>"
    using summary_single [of fdf r] by (simp add: filtered_df_nonzero_def)
  have single: "statistics (tabs fdf) =
        \<lparr> tallest_skyscraper_height = Some (of_int (rint (statistics_height r))),
          shortest_skyscraper_height = Some (of_int (rint (statistics_height r))),
          average_skyscraper_height = Some (of_int (rint (statistics_height r))),
          median_skyscraper_height = Some (of_int (rint (statistics_height r))),
          number_of_skyscrapers = 1 \<rparr>"
    if one: "filter (\<lambda>r. 0 < rint (statistics_height r)) fdf = [r]"
  proof -
    have "filtered_df_nonzero (round_heights fdf) =
        [r\<lparr>statistics_height := of_int (rint (statistics_height r))\<rparr>]"
      unfolding nonzero_round_heights one by (simp add: round_heights_def)
    then show ?thesis
      using summary_single [of "round_heights fdf"
          "r\<lparr>statistics_height := of_int (rint (statistics_height r))\<rparr>"]
      by (simp add: statistics_tabs round2_of_int)
  qed
  have empty: "statistics (tabs []) =
     \<lparr> tallest_skyscraper_height = None, shortest_skyscraper_height = None,
       average_skyscraper_height = None, median_skyscraper_height = None,
       number_of_skyscrapers = 0 \<rparr>"
    using summary_none [of "round_heights []"]
    by (simp add: statistics_tabs round_heights_def filtered_df_nonzero_def)
  from count over alone single empty statistics_tabs [of fdf] show ?thesis
    by blast
qed

theorem statistics_after_rounding_witness:
  "filter (\<lambda>r. 0 < rint (statistics_height r)) single_filtered = single_filtered \<and>
   map statistics_height single_filtered = [201 / 2] \<and>
   statistics (tabs single_filtered) =
     \<lparr> tallest_skyscraper_height = Some 100, shortest_skyscraper_height = Some 100,
       average_skyscraper_height = Some 100, median_skyscraper_height = Some 100,
       number_of_skyscrapers = 1 \<rparr>"
proof -
  have e1: "single_filtered = [hd single_filtered]"
    by code_simp
  have e2: "filter (\<lambda>r. 0 < rint (statistics_height r)) single_filtered = single_filtered"
    by code_simp
  have e3: "map statistics_height single_filtered = [201 / 2]"
    by code_simp
  have e4: "rint (statistics_height (hd single_filtered)) = 100"
    by code_simp
  have e5: "filter (\<lambda>r. 0 < rint (statistics_height r)) single_filtered = [hd single_filtered]"
    using e1 e2 by simp
  have "filter (\<lambda>r. 0 < rint (statistics_height r)) single_filtered = [hd single_filtered] \<longrightarrow>
      statistics (tabs single_filtered) =
        \<lparr> tallest_skyscraper_height = Some (of_int (rint (statistics_height (hd single_filtered)))),
          shortest_skyscraper_height = Some (of_int (rint (statistics_height (hd single_filtered)))),
          average_skyscraper_height = Some (of_int (rint (statistics_height (hd single_filtered)))),
          median_skyscraper_height = Some (of_int (rint (statistics_height (hd single_filtered)))),
          number_of_skyscrapers = 1 \<rparr>"
    using statistics_after_rounding [of single_filtered "hd single_filtered"] by blast
  then have "statistics (tabs single_filtered) =
     \<lparr> tallest_skyscraper_height = Some 100, shortest_skyscraper_height = Some 100,
       average_skyscraper_height = Some 100, median_skyscraper_height = Some 100,
       number_of_skyscrapers = 1 \<rparr>"
    using e5 by (simp add: e4)
  then show ?thesis
    using e2 e3 by simp
qed

text \<open>
  One row of height 100.5, which is positive: the view shows 100, not 100.5. One row
  of height 0.4, which is positive: the view counts no row. And lines 159 to 168 by
  themselves, on a table of one row of height 100.125: the mean is 100.12.
\<close>

theorem statistics_unrounded_counterexample:
  "map statistics_height (filter (\<lambda>r. 0 < statistics_height r) single_filtered) = [201 / 2] \<and>
   statistics (tabs single_filtered) =
     \<lparr> tallest_skyscraper_height = Some 100, shortest_skyscraper_height = Some 100,
       average_skyscraper_height = Some 100, median_skyscraper_height = Some 100,
       number_of_skyscrapers = 1 \<rparr> \<and>
   map statistics_height (filter (\<lambda>r. 0 < statistics_height r) low_filtered) = [2 / 5] \<and>
   number_of_skyscrapers (statistics (tabs low_filtered)) = 0 \<and>
   average_skyscraper_height
     (summary [\<lparr> location_city = ''Chicago'', location_latitude = None,
        location_longitude = None, statistics_height = 801 / 8,
        status_completed_year = Some 1998 \<rparr>]) = Some (2503 / 25)"
  by code_simp

end
